theory Spec2Isabelle
  imports Complex_Main "HOL-Library.Word"
begin

section \<open>Numbers of the source\<close>

text \<open>
  The measurement core computes on Python floats. They are embedded as exact rationals:
  the special value \<open>float("inf")\<close> is written out where the source uses it, and the
  rounding error of binary floating point is not part of the model.
\<close>

text \<open>Python's \<open>int(x)\<close> on a float: truncation toward zero.\<close>

definition py_int :: "rat \<Rightarrow> int" where
  "py_int x = (if 0 \<le> x then \<lfloor>x\<rfloor> else \<lceil>x\<rceil>)"

text \<open>Python's \<open>round(x)\<close>: to the nearest integer, a tie going to the even neighbour.\<close>

definition py_round :: "rat \<Rightarrow> int" where
  "py_round x =
     (let f = \<lfloor>x\<rfloor>; d = x - of_int f
      in if d < 1 / 2 then f
         else if 1 / 2 < d then f + 1
         else if even f then f else f + 1)"

text \<open>Python's \<open>round(x, 2)\<close>.\<close>

definition py_round2 :: "rat \<Rightarrow> rat" where
  "py_round2 x = of_int (py_round (x * 100)) / 100"

section \<open>Scoring\<close>

text \<open>\<open>DNSAnalyzer._calculate_reliability\<close> (dns_analyzer.py).\<close>

definition calculate_reliability :: "rat \<Rightarrow> rat \<Rightarrow> int" where
  "calculate_reliability avg_time success_rate =
     (if success_rate = 0 then 0
      else
        let time_score =
              (if avg_time \<le> 10 then 100
               else if avg_time \<le> 25 then 90
               else if avg_time \<le> 50 then 75
               else if avg_time \<le> 100 then 60
               else if avg_time \<le> 200 then 40
               else (20::rat))
        in py_int (success_rate * (6 / 10) + time_score * (4 / 10)))"

text \<open>\<open>CDNTester._calculate_score\<close> (cdn_tester.py).\<close>

definition calculate_score :: "rat \<Rightarrow> rat \<Rightarrow> int" where
  "calculate_score avg_time success_rate =
     (if success_rate = 0 then 0
      else
        let time_score =
              (if avg_time \<le> 50 then 100
               else if avg_time \<le> 100 then 90
               else if avg_time \<le> 200 then 75
               else if avg_time \<le> 500 then 50
               else if avg_time \<le> 1000 then 30
               else (10::rat))
        in py_int (success_rate * (6 / 10) + time_score * (4 / 10)))"

text \<open>
  The step functions of the specification's scoring table, written on their own: the
  time score as a function of the average latency, for DNS resolution and for CDN fetches.
\<close>

definition dns_time_score :: "rat \<Rightarrow> rat" where
  "dns_time_score avg_time =
     (if avg_time \<le> 10 then 100
      else if avg_time \<le> 25 then 90
      else if avg_time \<le> 50 then 75
      else if avg_time \<le> 100 then 60
      else if avg_time \<le> 200 then 40
      else 20)"

definition cdn_time_score :: "rat \<Rightarrow> rat" where
  "cdn_time_score avg_time =
     (if avg_time \<le> 50 then 100
      else if avg_time \<le> 100 then 90
      else if avg_time \<le> 200 then 75
      else if avg_time \<le> 500 then 50
      else if avg_time \<le> 1000 then 30
      else 10)"

text \<open>
  The score as the specification words it: \<open>round(success_rate * 0.6 + time_score * 0.4)\<close>.
\<close>

definition spec_score :: "rat \<Rightarrow> rat \<Rightarrow> int" where
  "spec_score time_score success_rate =
     py_round (success_rate * (6 / 10) + time_score * (4 / 10))"

section \<open>Python values\<close>

text \<open>
  A float that may be \<open>float("inf")\<close>: the running minimum of a benchmark starts there.
\<close>

datatype pyfloat = Fin rat | PosInf

text \<open>
  Python's \<open>min(a, b)\<close> and \<open>max(a, b)\<close> of two arguments: the first argument, unless the
  second is strictly smaller (strictly greater).
\<close>

fun py_min :: "pyfloat \<Rightarrow> rat \<Rightarrow> pyfloat" where
  "py_min PosInf t = Fin t"
| "py_min (Fin m) t = (if t < m then Fin t else Fin m)"

definition py_max :: "rat \<Rightarrow> rat \<Rightarrow> rat" where
  "py_max m t = (if m < t then t else m)"

fun round2_pyfloat :: "pyfloat \<Rightarrow> pyfloat" where
  "round2_pyfloat (Fin x) = Fin (py_round2 x)"
| "round2_pyfloat PosInf = PosInf"

text \<open>The values stored in the result dictionaries of the runners.\<close>

datatype pyval =
    PyNone
  | PyBool bool
  | PyNum rat
  | PyInf
  | PyStr string
  | PyList "pyval list"
  | PyDict "(string \<times> pyval) list"

fun pyval_of_pyfloat :: "pyfloat \<Rightarrow> pyval" where
  "pyval_of_pyfloat (Fin x) = PyNum x"
| "pyval_of_pyfloat PosInf = PyInf"

definition pyval_of_opt_str :: "string option \<Rightarrow> pyval" where
  "pyval_of_opt_str s = (case s of None \<Rightarrow> PyNone | Some t \<Rightarrow> PyStr t)"

type_synonym pydict = "string \<rightharpoonup> pyval"

text \<open>The exceptions the modelled code can raise.\<close>

datatype error = IndexError | StructError | ZeroDivisionError | AttributeError

definition error_str :: "error \<Rightarrow> string" where
  "error_str e =
     (case e of
        IndexError \<Rightarrow> ''index out of range''
      | StructError \<Rightarrow> ''unpack requires a buffer of 2 bytes''
      | ZeroDivisionError \<Rightarrow> ''division by zero''
      | AttributeError \<Rightarrow> ''NoneType object has no attribute get'')"

text \<open>\<open>str(n)\<close> of a natural number, and \<open>sep.join(parts)\<close>.\<close>

definition digit_char :: "nat \<Rightarrow> char" where
  "digit_char d = char_of (48 + d)"

fun str_nat :: "nat \<Rightarrow> string" where
  "str_nat n = (if n < 10 then [digit_char n] else str_nat (n div 10) @ [digit_char (n mod 10)])"

fun py_join :: "string \<Rightarrow> string list \<Rightarrow> string" where
  "py_join sep [] = []"
| "py_join sep [x] = x"
| "py_join sep (x # y # ys) = x @ sep @ py_join sep (y # ys)"

text \<open>The slice \<open>xs[i:j]\<close> for \<open>0 \<le> i \<le> j\<close>; it is shorter where the list ends early.\<close>

definition py_slice :: "'a list \<Rightarrow> nat \<Rightarrow> nat \<Rightarrow> 'a list" where
  "py_slice xs i j = take (j - i) (drop i xs)"

declare str_nat.simps [simp del]

section \<open>DNS resolution probe (dns_analyzer.py)\<close>

type_synonym byte = "8 word"

text \<open>\<open>struct.unpack(">H", b)[0]\<close>: a buffer of exactly two bytes, big endian.\<close>

fun unpack_H :: "byte list \<Rightarrow> error + nat" where
  "unpack_H [hi, lo] = Inr (unat hi * 256 + unat lo)"
| "unpack_H _ = Inl StructError"

text \<open>
  The loop \<open>while response[pos] != 0: pos += 1\<close>: the position of the next zero byte, or
  IndexError when the response ends first.
\<close>

function skip_to_zero :: "byte list \<Rightarrow> nat \<Rightarrow> error + nat" where
  "skip_to_zero response pos =
     (if length response \<le> pos then Inl IndexError
      else if response ! pos \<noteq> 0 then skip_to_zero response (pos + 1)
      else Inr pos)"
  by pat_completeness auto
termination
  by (relation "measure (\<lambda>(response, pos). length response - pos)") auto

declare skip_to_zero.simps [simp del]

text \<open>
  The name at the head of an answer record: a two-byte compression pointer when the
  byte at \<open>pos\<close> is at least 192, a run of bytes up to and including a zero byte otherwise.
  Called with \<open>pos < len(response)\<close> only.
\<close>

definition skip_name :: "byte list \<Rightarrow> nat \<Rightarrow> error + nat" where
  "skip_name response pos =
     (if 192 \<le> unat (response ! pos) then Inr (pos + 2)
      else case skip_to_zero response pos of
             Inl e \<Rightarrow> Inl e
           | Inr p \<Rightarrow> Inr (p + 1))"

lemma skip_to_zero_ge: "skip_to_zero response pos = Inr p \<Longrightarrow> pos \<le> p"
proof (induction response pos rule: skip_to_zero.induct)
  case (1 response pos)
  show ?case
  proof (cases "length response \<le> pos")
    case True
    with "1.prems" show ?thesis by (simp add: skip_to_zero.simps [of response pos])
  next
    case False
    note in_range = this
    show ?thesis
    proof (cases "response ! pos \<noteq> 0")
      case True
      with in_range "1.prems" have "skip_to_zero response (pos + 1) = Inr p"
        by (simp add: skip_to_zero.simps [of response pos])
      with "1.IH" in_range True have "pos + 1 \<le> p" by simp
      then show ?thesis by simp
    next
      case False
      with in_range "1.prems" show ?thesis
        by (simp add: skip_to_zero.simps [of response pos])
    qed
  qed
qed

lemma skip_name_gt: "skip_name response pos = Inr p \<Longrightarrow> pos < p"
  by (auto simp: skip_name_def split: if_splits sum.splits dest: skip_to_zero_ge)

text \<open>
  One pass through the body of the loop over the answer records of
  \<open>_parse_dns_response\<close>: an exception, the address to return, or the position of the
  next record.
\<close>

definition answer_record :: "byte list \<Rightarrow> nat \<Rightarrow> error + (string + nat)" where
  "answer_record response pos =
     (case skip_name response pos of
        Inl e \<Rightarrow> Inl e
      | Inr pos1 \<Rightarrow>
          (case unpack_H (py_slice response pos1 (pos1 + 2)) of
             Inl e \<Rightarrow> Inl e
           | Inr rtype \<Rightarrow>
               (case unpack_H (py_slice response (pos1 + 8) (pos1 + 8 + 2)) of
                  Inl e \<Rightarrow> Inl e
                | Inr rdlength \<Rightarrow>
                    if rtype = 1 \<and> rdlength = 4
                    then Inr (Inl (py_join ''.''
                                (map (\<lambda>b. str_nat (unat b))
                                   (py_slice response (pos1 + 8 + 2) (pos1 + 8 + 2 + 4)))))
                    else Inr (Inr (pos1 + 8 + 2 + rdlength)))))"

lemma answer_record_gt: "answer_record response pos = Inr (Inr p) \<Longrightarrow> pos < p"
  unfolding answer_record_def
  by (auto split: sum.splits if_splits dest: skip_name_gt)

text \<open>The loop \<open>while pos < len(response)\<close> over the answer records.\<close>

function parse_answers :: "byte list \<Rightarrow> nat \<Rightarrow> error + string" where
  "parse_answers response pos =
     (if \<not> pos < length response then Inr ''''
      else
        case answer_record response pos of
          Inl e \<Rightarrow> Inl e
        | Inr (Inl ip) \<Rightarrow> Inr ip
        | Inr (Inr pos') \<Rightarrow> parse_answers response pos')"
  by pat_completeness auto
termination
  by (relation "measure (\<lambda>(response, pos). length response - pos)")
     (auto dest: answer_record_gt)

declare parse_answers.simps [simp del]

text \<open>\<open>DNSAnalyzer._parse_dns_response\<close>.\<close>

definition parse_dns_response :: "byte list \<Rightarrow> error + string" where
  "parse_dns_response response =
     (case skip_to_zero response 12 of
        Inl e \<Rightarrow> Inl e
      | Inr pos \<Rightarrow> parse_answers response (pos + 5))"

text \<open>
  What the UDP exchange of \<open>_resolve_dns\<close> comes to: the bytes of a response, or an
  exception raised while the query is built, sent or awaited (socket timeout included),
  with its message.
\<close>

datatype udp_outcome = Received "byte list" | SocketFailed string

record resolve_result =
  rr_success :: bool
  rr_ip :: "string option"
  rr_error :: "string option"

text \<open>
  \<open>DNSAnalyzer._resolve_dns\<close>: the parser runs inside the \<open>try\<close>, so an exception of
  the parser is caught by \<open>except Exception\<close> like one of the socket.
\<close>

definition resolve_dns :: "udp_outcome \<Rightarrow> resolve_result" where
  "resolve_dns outcome =
     (case outcome of
        SocketFailed msg \<Rightarrow> \<lparr>rr_success = False, rr_ip = None, rr_error = Some msg\<rparr>
      | Received response \<Rightarrow>
          (case parse_dns_response response of
             Inr ip \<Rightarrow> \<lparr>rr_success = True, rr_ip = Some ip, rr_error = None\<rparr>
           | Inl e \<Rightarrow> \<lparr>rr_success = False, rr_ip = None, rr_error = Some (error_str e)\<rparr>))"

text \<open>
  What awaiting \<open>_resolve_dns\<close> under \<open>asyncio.wait_for\<close> comes to: it finished after
  some milliseconds, the timeout expired first, or another exception was raised.
\<close>

datatype dns_wait = Finished rat udp_outcome | TimedOut | Raised string

record dns_test_result =
  success :: bool
  response_time_ms :: rat
  resolved_ip :: string
  error :: "string option"

text \<open>\<open>DNSAnalyzer.test_dns_server\<close>; \<open>timeout\<close> is in seconds.\<close>

definition test_dns_server :: "rat \<Rightarrow> dns_wait \<Rightarrow> dns_test_result" where
  "test_dns_server timeout w =
     (case w of
        Finished elapsed_ms outcome \<Rightarrow>
          (let result = resolve_dns outcome
           in \<lparr>success = rr_success result,
               response_time_ms = py_round2 elapsed_ms,
               resolved_ip = (case rr_ip result of None \<Rightarrow> '''' | Some ip \<Rightarrow> ip),
               error = rr_error result\<rparr>)
      | TimedOut \<Rightarrow>
          \<lparr>success = False, response_time_ms = timeout * 1000, resolved_ip = '''',
           error = Some ''Timeout''\<rparr>
      | Raised msg \<Rightarrow>
          \<lparr>success = False, response_time_ms = 0, resolved_ip = '''', error = Some msg\<rparr>)"

section \<open>Benchmark runners\<close>

text \<open>
  What a runner accumulates for one target while its probes run: the probe results, the
  response times of the samples it counts as successful, their number, and the running
  minimum and maximum. The source keeps the last two in the result dictionary.
\<close>

record 't bench_acc =
  tests :: "'t list"
  all_times :: "rat list"
  successful :: nat
  min_time :: pyfloat
  max_time :: rat

definition init_acc :: "'t bench_acc" where
  "init_acc = \<lparr>tests = [], all_times = [], successful = 0, min_time = PosInf, max_time = 0\<rparr>"

text \<open>The statements under \<open>if result["success"] ...\<close> in the DNS and CDN loops.\<close>

definition count_success :: "rat \<Rightarrow> 't bench_acc \<Rightarrow> 't bench_acc" where
  "count_success time_ms acc =
     acc\<lparr>successful := successful acc + 1,
         all_times := all_times acc @ [time_ms],
         min_time := py_min (min_time acc) time_ms,
         max_time := py_max (max_time acc) time_ms\<rparr>"

subsection \<open>DNS benchmark (dns_analyzer.py)\<close>

record dns_server_info =
  primary :: string
  secondary :: string
  category :: string
  privacy :: string
  features :: "string list"

definition DNS_SERVERS :: "(string \<times> dns_server_info) list" where
  "DNS_SERVERS =
     [(''Cloudflare'', \<lparr>primary = ''1.1.1.1'', secondary = ''1.0.0.1'', category = ''public'',
         privacy = ''high'', features = [''DoH'', ''DoT'', ''DNSSEC'']\<rparr>),
      (''Google'', \<lparr>primary = ''8.8.8.8'', secondary = ''8.8.4.4'', category = ''public'',
         privacy = ''medium'', features = [''DoH'', ''DoT'', ''DNSSEC'']\<rparr>),
      (''Quad9'', \<lparr>primary = ''9.9.9.9'', secondary = ''149.112.112.112'', category = ''security'',
         privacy = ''high'', features = [''DoH'', ''DoT'', ''DNSSEC'', ''Malware Blocking'']\<rparr>),
      (''OpenDNS'', \<lparr>primary = ''208.67.222.222'', secondary = ''208.67.220.220'',
         category = ''public'', privacy = ''medium'',
         features = [''DNSSEC'', ''Content Filtering'']\<rparr>),
      (''Cloudflare Malware'', \<lparr>primary = ''1.1.1.2'', secondary = ''1.0.0.2'',
         category = ''security'', privacy = ''high'',
         features = [''DoH'', ''DoT'', ''Malware Blocking'']\<rparr>),
      (''Cloudflare Family'', \<lparr>primary = ''1.1.1.3'', secondary = ''1.0.0.3'',
         category = ''family'', privacy = ''high'',
         features = [''DoH'', ''DoT'', ''Adult Content Blocking'']\<rparr>),
      (''AdGuard'', \<lparr>primary = ''94.140.14.14'', secondary = ''94.140.15.15'',
         category = ''adblock'', privacy = ''high'', features = [''DoH'', ''DoT'', ''Ad Blocking'']\<rparr>),
      (''AdGuard Family'', \<lparr>primary = ''94.140.14.15'', secondary = ''94.140.15.16'',
         category = ''family'', privacy = ''high'',
         features = [''DoH'', ''DoT'', ''Ad + Adult Blocking'']\<rparr>),
      (''CleanBrowsing Security'', \<lparr>primary = ''185.228.168.9'', secondary = ''185.228.169.9'',
         category = ''security'', privacy = ''high'',
         features = [''DoH'', ''DoT'', ''Malware Blocking'']\<rparr>),
      (''CleanBrowsing Family'', \<lparr>primary = ''185.228.168.168'', secondary = ''185.228.169.168'',
         category = ''family'', privacy = ''high'',
         features = [''DoH'', ''DoT'', ''Adult + Malware Blocking'']\<rparr>),
      (''NextDNS'', \<lparr>primary = ''45.90.28.0'', secondary = ''45.90.30.0'', category = ''privacy'',
         privacy = ''high'', features = [''DoH'', ''DoT'', ''Customizable'']\<rparr>),
      (''Control D'', \<lparr>primary = ''76.76.2.0'', secondary = ''76.76.10.0'', category = ''privacy'',
         privacy = ''high'', features = [''DoH'', ''DoT'', ''Customizable'']\<rparr>)]"

definition TEST_DOMAINS :: "string list" where
  "TEST_DOMAINS =
     [''google.com'', ''cloudflare.com'', ''github.com'', ''microsoft.com'', ''apple.com'',
      ''amazon.com'', ''facebook.com'', ''twitter.com'', ''netflix.com'', ''youtube.com'']"

text \<open>The entry \<open>{"domain": domain, **result}\<close> appended to \<open>tests\<close>.\<close>

definition dns_test_dict :: "string \<times> dns_test_result \<Rightarrow> pyval" where
  "dns_test_dict t =
     PyDict [(''domain'', PyStr (fst t)),
             (''success'', PyBool (success (snd t))),
             (''response_time_ms'', PyNum (response_time_ms (snd t))),
             (''resolved_ip'', PyStr (resolved_ip (snd t))),
             (''error'', pyval_of_opt_str (error (snd t)))]"

text \<open>The body of the inner loop, after the probe has returned \<open>result\<close>.\<close>

definition dns_record_test ::
  "string \<Rightarrow> dns_test_result \<Rightarrow> (string \<times> dns_test_result) bench_acc
     \<Rightarrow> (string \<times> dns_test_result) bench_acc" where
  "dns_record_test domain result acc =
     (let acc1 = acc\<lparr>tests := tests acc @ [(domain, result)]\<rparr>
      in if success result then count_success (response_time_ms result) acc1 else acc1)"

text \<open>
  The two nested loops of \<open>benchmark\<close> for one server. The network is a function from
  the number of the probe, counted from 0 in the order the loops make them, to what that
  probe meets; \<open>calls\<close> lists the domain of each probe still to make. The benchmark calls
  \<open>test_dns_server\<close> with its default timeout of 5 seconds.
\<close>

fun dns_run_tests ::
  "(nat \<Rightarrow> dns_wait) \<Rightarrow> string list \<Rightarrow> nat \<Rightarrow> (string \<times> dns_test_result) bench_acc
     \<Rightarrow> (string \<times> dns_test_result) bench_acc" where
  "dns_run_tests net [] k acc = acc"
| "dns_run_tests net (domain # calls) k acc =
     dns_run_tests net calls (k + 1) (dns_record_test domain (test_dns_server 5 (net k)) acc)"

text \<open>
  The body of the loop over the servers in \<open>DNSAnalyzer.benchmark\<close>: the entry
  \<open>server_results\<close> of one server. \<open>test_domains\<close> is empty when the caller passes none.
  Dividing by \<open>total_tests = 0\<close> raises.
\<close>

definition benchmark_server ::
  "string \<Rightarrow> string \<Rightarrow> (nat \<Rightarrow> dns_wait) \<Rightarrow> string list \<Rightarrow> int \<Rightarrow> error + pydict" where
  "benchmark_server server_name server_ip net test_domains iterations =
     (let domains = (if test_domains \<noteq> [] then test_domains else take 5 TEST_DOMAINS);
          calls = concat (map (replicate (nat iterations)) domains);
          acc = dns_run_tests net calls 0 init_acc;
          total_tests = int (length domains) * iterations
      in if total_tests = 0 then Inl ZeroDivisionError
         else
           let success_rate = py_round2 (of_nat (successful acc) / of_int total_tests * 100);
               avg_response_time =
                 (if all_times acc \<noteq> []
                  then py_round2 (sum_list (all_times acc) / of_nat (length (all_times acc)))
                  else 0);
               min_time' = (if all_times acc \<noteq> [] then round2_pyfloat (min_time acc) else Fin 0);
               max_time' = (if all_times acc \<noteq> [] then py_round2 (max_time acc) else max_time acc);
               server_results =
                 [''ip'' \<mapsto> PyStr server_ip,
                  ''tests'' \<mapsto> PyList (map dns_test_dict (tests acc)),
                  ''avg_response_time'' \<mapsto> PyNum avg_response_time,
                  ''success_rate'' \<mapsto> PyNum success_rate,
                  ''min_time'' \<mapsto> pyval_of_pyfloat min_time',
                  ''max_time'' \<mapsto> PyNum max_time',
                  ''reliability_score'' \<mapsto>
                     PyNum (of_int (calculate_reliability avg_response_time success_rate))]
           in Inr (case map_of DNS_SERVERS server_name of
                     None \<Rightarrow> server_results
                   | Some info \<Rightarrow>
                       server_results
                         (''category'' \<mapsto> PyStr (category info),
                          ''privacy'' \<mapsto> PyStr (privacy info),
                          ''features'' \<mapsto> PyList (map PyStr (features info)))))"

subsection \<open>CDN benchmark (cdn_tester.py)\<close>

text \<open>
  What the GET of \<open>test_cdn\<close> comes to: a response read completely after some
  milliseconds, with its status, the length of its content and its headers as a
  dictionary; the timeout; or another exception.
\<close>

datatype http_wait =
    Responded rat int nat "(string \<times> string) list"
  | HttpTimedOut
  | HttpRaised string

record cdn_test_result =
  cdn_success :: bool
  status_code :: int
  cdn_response_time_ms :: rat
  content_length :: nat
  cdn_header :: "string option"
  headers :: "(string \<times> string) list"
  cdn_error :: "string option"

text \<open>The first of the CDN header names that the response carries, with its value.\<close>

fun find_cdn_header :: "(string \<times> string) list \<Rightarrow> string list \<Rightarrow> string option" where
  "find_cdn_header hdrs [] = None"
| "find_cdn_header hdrs (header # rest) =
     (case map_of hdrs header of
        Some v \<Rightarrow> Some (header @ '': '' @ v)
      | None \<Rightarrow> find_cdn_header hdrs rest)"

text \<open>\<open>CDNTester.test_cdn\<close>; \<open>timeout\<close> is \<open>self.timeout\<close>, in seconds.\<close>

definition test_cdn :: "rat \<Rightarrow> http_wait \<Rightarrow> cdn_test_result" where
  "test_cdn timeout w =
     (case w of
        Responded elapsed_ms status len hdrs \<Rightarrow>
          \<lparr>cdn_success = True,
           status_code = status,
           cdn_response_time_ms = py_round2 elapsed_ms,
           content_length = len,
           cdn_header =
             find_cdn_header hdrs [''cf-ray'', ''x-cache'', ''x-cdn'', ''x-served-by'', ''x-amz-cf-id''],
           headers = take 10 hdrs,
           cdn_error = None\<rparr>
      | HttpTimedOut \<Rightarrow>
          \<lparr>cdn_success = False, status_code = 0, cdn_response_time_ms = timeout * 1000,
           content_length = 0, cdn_header = None, headers = [], cdn_error = Some ''Timeout''\<rparr>
      | HttpRaised msg \<Rightarrow>
          \<lparr>cdn_success = False, status_code = 0, cdn_response_time_ms = 0,
           content_length = 0, cdn_header = None, headers = [], cdn_error = Some msg\<rparr>)"

definition cdn_test_dict :: "cdn_test_result \<Rightarrow> pyval" where
  "cdn_test_dict t =
     PyDict [(''success'', PyBool (cdn_success t)),
             (''status_code'', PyNum (of_int (status_code t))),
             (''response_time_ms'', PyNum (cdn_response_time_ms t)),
             (''content_length'', PyNum (of_nat (content_length t))),
             (''cdn_header'', pyval_of_opt_str (cdn_header t)),
             (''headers'', PyDict (map (\<lambda>(k, v). (k, PyStr v)) (headers t))),
             (''error'', pyval_of_opt_str (cdn_error t))]"

text \<open>The body of the loop over the iterations, after the probe has returned.\<close>

definition cdn_record_test ::
  "cdn_test_result \<Rightarrow> cdn_test_result bench_acc \<Rightarrow> cdn_test_result bench_acc" where
  "cdn_record_test result acc =
     (let acc1 = acc\<lparr>tests := tests acc @ [result]\<rparr>
      in if cdn_success result \<and> status_code result < 400
         then count_success (cdn_response_time_ms result) acc1
         else acc1)"

text \<open>The loop \<open>for _ in range(iterations)\<close>, the network given per iteration.\<close>

fun cdn_run_tests ::
  "rat \<Rightarrow> (nat \<Rightarrow> http_wait) \<Rightarrow> nat list \<Rightarrow> cdn_test_result bench_acc
     \<Rightarrow> cdn_test_result bench_acc" where
  "cdn_run_tests timeout net [] acc = acc"
| "cdn_run_tests timeout net (k # ks) acc =
     cdn_run_tests timeout net ks (cdn_record_test (test_cdn timeout (net k)) acc)"

record cdn_info =
  test_url :: string
  description :: string
  cdn_features :: "string list"

text \<open>
  The body of the loop over the providers in \<open>CDNTester.benchmark\<close>: the entry
  \<open>cdn_results\<close> of one provider. Dividing by \<open>iterations = 0\<close> raises.
\<close>

definition benchmark_provider ::
  "rat \<Rightarrow> cdn_info \<Rightarrow> (nat \<Rightarrow> http_wait) \<Rightarrow> int \<Rightarrow> error + pydict" where
  "benchmark_provider timeout info net iterations =
     (let acc = cdn_run_tests timeout net [0..<nat iterations] init_acc
      in if iterations = 0 then Inl ZeroDivisionError
         else
           let success_rate = py_round2 (of_nat (successful acc) / of_int iterations * 100);
               avg_response_time =
                 (if all_times acc \<noteq> []
                  then py_round2 (sum_list (all_times acc) / of_nat (length (all_times acc)))
                  else 0);
               min_time' = (if all_times acc \<noteq> [] then round2_pyfloat (min_time acc) else Fin 0);
               max_time' = (if all_times acc \<noteq> [] then py_round2 (max_time acc) else max_time acc)
           in Inr [''url'' \<mapsto> PyStr (test_url info),
                   ''description'' \<mapsto> PyStr (description info),
                   ''features'' \<mapsto> PyList (map PyStr (cdn_features info)),
                   ''tests'' \<mapsto> PyList (map cdn_test_dict (tests acc)),
                   ''avg_response_time'' \<mapsto> PyNum avg_response_time,
                   ''min_time'' \<mapsto> pyval_of_pyfloat min_time',
                   ''max_time'' \<mapsto> PyNum max_time',
                   ''success_rate'' \<mapsto> PyNum success_rate,
                   ''score'' \<mapsto> PyNum (of_int (calculate_score avg_response_time success_rate))])"

section \<open>Properties of the scorers\<close>

lemma dns_time_score_bounds: "20 \<le> dns_time_score a \<and> dns_time_score a \<le> 100"
  by (simp add: dns_time_score_def)

lemma cdn_time_score_bounds: "10 \<le> cdn_time_score a \<and> cdn_time_score a \<le> 100"
  by (simp add: cdn_time_score_def)

lemma calculate_reliability_unfold:
  "calculate_reliability a s =
     (if s = 0 then 0 else py_int (s * (6 / 10) + dns_time_score a * (4 / 10)))"
  by (simp add: calculate_reliability_def dns_time_score_def Let_def)

lemma calculate_score_unfold:
  "calculate_score a s =
     (if s = 0 then 0 else py_int (s * (6 / 10) + cdn_time_score a * (4 / 10)))"
  by (simp add: calculate_score_def cdn_time_score_def Let_def)

lemma py_int_pos:
  assumes "1 \<le> x"
  shows "0 < py_int x"
proof -
  from assms have "0 \<le> x" by simp
  then have "py_int x = \<lfloor>x\<rfloor>" by (simp add: py_int_def)
  moreover from assms have "0 < \<lfloor>x\<rfloor>" by simp
  ultimately show ?thesis by simp
qed

lemma weighted_ge_one:
  fixes s t :: rat
  assumes "0 < s" and "10 \<le> t"
  shows "1 \<le> s * (6 / 10) + t * (4 / 10)"
proof -
  from assms(1) have "0 \<le> s * (6 / 10)" by simp
  moreover from assms(2) have "4 \<le> t * (4 / 10)" by simp
  ultimately show ?thesis by linarith
qed

text \<open>
  C1. For a success rate that is a percentage (not negative), the DNS reliability score
  and the CDN score are 0 exactly when the success rate is 0, and a positive success rate
  gives a strictly positive score, whatever the average latency: the time score never
  falls below its lowest band (20 for DNS, 10 for CDN).
\<close>

theorem score_zero_iff_success_rate_zero:
  assumes "0 \<le> success_rate"
  shows "(success_rate = 0 \<longleftrightarrow> calculate_reliability avg_time success_rate = 0)
       \<and> (success_rate = 0 \<longleftrightarrow> calculate_score avg_time success_rate = 0)
       \<and> (0 < success_rate \<longrightarrow>
            0 < calculate_reliability avg_time success_rate
          \<and> 0 < calculate_score avg_time success_rate)"
proof (cases "success_rate = 0")
  case True
  then show ?thesis
    by (simp add: calculate_reliability_unfold calculate_score_unfold)
next
  case False
  with assms have pos: "0 < success_rate" by simp
  have "10 \<le> dns_time_score avg_time"
    using dns_time_score_bounds [of avg_time] by linarith
  with pos have d: "0 < py_int (success_rate * (6 / 10) + dns_time_score avg_time * (4 / 10))"
    by (intro py_int_pos weighted_ge_one)
  have "10 \<le> cdn_time_score avg_time"
    using cdn_time_score_bounds [of avg_time] by linarith
  with pos have c: "0 < py_int (success_rate * (6 / 10) + cdn_time_score avg_time * (4 / 10))"
    by (intro py_int_pos weighted_ge_one)
  from False d c show ?thesis
    by (simp add: calculate_reliability_unfold calculate_score_unfold)
qed

theorem score_zero_iff_success_rate_zero_witness:
  "(0::rat) \<le> 50
   \<and> calculate_reliability 20 50 = 66 \<and> calculate_score 20 50 = 70
   \<and> calculate_reliability 20 0 = 0 \<and> calculate_score 20 0 = 0"
  using score_zero_iff_success_rate_zero [of 50 20] score_zero_iff_success_rate_zero [of 0 20]
  by (simp add: calculate_reliability_def calculate_score_def py_int_def)

lemma dns_time_score_antimono: "a \<le> b \<Longrightarrow> dns_time_score b \<le> dns_time_score a"
  by (simp add: dns_time_score_def)

lemma cdn_time_score_antimono: "a \<le> b \<Longrightarrow> cdn_time_score b \<le> cdn_time_score a"
  by (simp add: cdn_time_score_def)

lemma py_int_floor: "0 \<le> x \<Longrightarrow> py_int x = \<lfloor>x\<rfloor>"
  by (simp add: py_int_def)

text \<open>
  C2, as stated: both scorers would return \<open>round(success_rate * 0.6 + time_score * 0.4)\<close>.
  They do not: at an average of 5 ms and a success rate of 33.33 (one probe of three
  succeeded) the weighted sum is 59.998, the scorers return 59 and rounding gives 60.
\<close>

theorem score_is_round_counterexample:
  "calculate_reliability 5 (3333 / 100) = 59
   \<and> spec_score (dns_time_score 5) (3333 / 100) = 60
   \<and> calculate_score 5 (3333 / 100) = 59
   \<and> spec_score (cdn_time_score 5) (3333 / 100) = 60"
  by code_simp

text \<open>
  C2, amended: for every average latency and every success rate above 0, both scorers
  return \<open>int(success_rate * 0.6 + time_score * 0.4)\<close>, the weighted sum truncated toward
  zero (its floor, the sum being positive), where the time score is the step function of
  the domain; the step functions do not increase with the latency, and an average under
  10 ms (DNS) or under 50 ms (CDN) has time score 100.
\<close>

theorem score_is_truncated_weighted_sum:
  assumes "0 < success_rate"
  shows "calculate_reliability avg_time success_rate
           = py_int (success_rate * (6 / 10) + dns_time_score avg_time * (4 / 10))
       \<and> calculate_reliability avg_time success_rate
           = \<lfloor>success_rate * (6 / 10) + dns_time_score avg_time * (4 / 10)\<rfloor>
       \<and> calculate_score avg_time success_rate
           = py_int (success_rate * (6 / 10) + cdn_time_score avg_time * (4 / 10))
       \<and> calculate_score avg_time success_rate
           = \<lfloor>success_rate * (6 / 10) + cdn_time_score avg_time * (4 / 10)\<rfloor>
       \<and> (a \<le> b \<longrightarrow> dns_time_score b \<le> dns_time_score a)
       \<and> (a \<le> b \<longrightarrow> cdn_time_score b \<le> cdn_time_score a)
       \<and> (avg_time < 10 \<longrightarrow> dns_time_score avg_time = 100)
       \<and> (avg_time < 50 \<longrightarrow> cdn_time_score avg_time = 100)"
proof -
  from assms have nz: "success_rate \<noteq> 0" by simp
  have "10 \<le> dns_time_score avg_time"
    using dns_time_score_bounds [of avg_time] by linarith
  with assms have "1 \<le> success_rate * (6 / 10) + dns_time_score avg_time * (4 / 10)"
    by (rule weighted_ge_one)
  then have d: "py_int (success_rate * (6 / 10) + dns_time_score avg_time * (4 / 10))
      = \<lfloor>success_rate * (6 / 10) + dns_time_score avg_time * (4 / 10)\<rfloor>"
    by (intro py_int_floor) linarith
  have "10 \<le> cdn_time_score avg_time"
    using cdn_time_score_bounds [of avg_time] by linarith
  with assms have "1 \<le> success_rate * (6 / 10) + cdn_time_score avg_time * (4 / 10)"
    by (rule weighted_ge_one)
  then have c: "py_int (success_rate * (6 / 10) + cdn_time_score avg_time * (4 / 10))
      = \<lfloor>success_rate * (6 / 10) + cdn_time_score avg_time * (4 / 10)\<rfloor>"
    by (intro py_int_floor) linarith
  have m: "(a \<le> b \<longrightarrow> dns_time_score b \<le> dns_time_score a)
      \<and> (a \<le> b \<longrightarrow> cdn_time_score b \<le> cdn_time_score a)"
    using dns_time_score_antimono [of a b] cdn_time_score_antimono [of a b] by blast
  have t: "(avg_time < 10 \<longrightarrow> dns_time_score avg_time = 100)
      \<and> (avg_time < 50 \<longrightarrow> cdn_time_score avg_time = 100)"
    by (simp add: dns_time_score_def cdn_time_score_def)
  from nz d c m t show ?thesis
    by (simp add: calculate_reliability_unfold calculate_score_unfold)
qed

theorem score_is_truncated_weighted_sum_witness:
  "(0::rat) < 3333 / 100 \<and> (5::rat) \<le> 20 \<and> (5::rat) < 10 \<and> (5::rat) < 50
   \<and> calculate_reliability 5 (3333 / 100) = \<lfloor>(3333 / 100) * (6 / 10) + 100 * (4 / 10 :: rat)\<rfloor>
   \<and> calculate_score 5 (3333 / 100) = \<lfloor>(3333 / 100) * (6 / 10) + 100 * (4 / 10 :: rat)\<rfloor>
   \<and> dns_time_score 20 \<le> dns_time_score 5
   \<and> cdn_time_score 20 \<le> cdn_time_score 5"
  using score_is_truncated_weighted_sum [of "3333 / 100" 5 5 20]
  by (simp add: py_int_def)

end
